theory Spec2Isabelle
  imports Complex_Main "HOL-Library.Multiset"
begin

section \<open>Text, numbers and errors\<close>

text \<open>
  The program reads the text of a broker's annual statement, finds the dividend table, the
  table of realized gains and the fee line in it, and computes ten lines of a tax form.
  The model starts from the text: the PDF reader that produces it and the spreadsheet
  writer that receives the ten lines are not part of it, nor is \<^verbatim>\<open>extract_general_data\<close>,
  which \<^verbatim>\<open>main\<close> never calls.

  A Python string is a sequence of code points. The model reads a \<^typ>\<open>char\<close> as the
  code point of the same number, so a text is a string over U+0000 .. U+00FF (Latin-1): the
  anchors and labels of the program, umlauts included, lie in that range. There the classes
  \<^verbatim>\<open>\d\<close> and \<^verbatim>\<open>\s\<close> of \<^verbatim>\<open>re\<close> and the characters removed by
  \<^verbatim>\<open>str.strip\<close> are the sets below.

  Amounts are Python floats in the program. The model computes with the exact rational
  value a decimal token denotes: rounding to binary floating point, overflow to infinity
  and the order in which a sum is accumulated are outside the model. The one special value
  kept is the missing value (NaN) of a table cell, written \<open>None\<close>.
\<close>

datatype py_error = ValueError | KeyError | TypeError | IndexError

abbreviation auml :: char where "auml \<equiv> CHR 0xE4"
abbreviation ouml :: char where "ouml \<equiv> CHR 0xF6"
abbreviation uuml :: char where "uuml \<equiv> CHR 0xFC"
abbreviation szlig :: char where "szlig \<equiv> CHR 0xDF"
abbreviation sect :: char where "sect \<equiv> CHR 0xA7"
abbreviation newline :: char where "newline \<equiv> CHR 0x0A"

definition is_digit :: "char \<Rightarrow> bool" where
  "is_digit c = (48 \<le> (of_char c :: nat) \<and> (of_char c :: nat) \<le> 57)"

definition is_upper :: "char \<Rightarrow> bool" where
  "is_upper c = (65 \<le> (of_char c :: nat) \<and> (of_char c :: nat) \<le> 90)"

definition is_lower :: "char \<Rightarrow> bool" where
  "is_lower c = (97 \<le> (of_char c :: nat) \<and> (of_char c :: nat) \<le> 122)"

text \<open>Whitespace as Python sees it below U+0100: tab to carriage return, the four
  separators U+001C .. U+001F, the space, U+0085 and the no-break space.\<close>

definition is_space :: "char \<Rightarrow> bool" where
  "is_space c =
     ((9 \<le> (of_char c :: nat) \<and> (of_char c :: nat) \<le> 13) \<or>
      (28 \<le> (of_char c :: nat) \<and> (of_char c :: nat) \<le> 32) \<or>
      (of_char c :: nat) = 133 \<or> (of_char c :: nat) = 160)"

text \<open>\<^verbatim>\<open>s.strip()\<close>, \<^verbatim>\<open>s.replace(',', '.')\<close> and \<^verbatim>\<open>s.split("\n")\<close>.\<close>

definition strip :: "string \<Rightarrow> string" where
  "strip s = rev (dropWhile is_space (rev (dropWhile is_space s)))"

definition replace_comma :: "string \<Rightarrow> string" where
  "replace_comma s = map (\<lambda>c. if c = CHR '','' then CHR ''.'' else c) s"

fun split_lines :: "string \<Rightarrow> string list" where
  "split_lines [] = [[]]"
| "split_lines (c # s) =
     (if c = newline then [] # split_lines s
      else (case split_lines s of
              [] \<Rightarrow> [[c]]
            | l # ls \<Rightarrow> (c # l) # ls))"

text \<open>\<^verbatim>\<open>re.split(r'\s+', line)\<close>: the pieces between the maximal runs of whitespace; a
  run at either end leaves an empty piece there.\<close>

function re_split_ws :: "string \<Rightarrow> string list" where
  "re_split_ws [] = [[]]"
| "re_split_ws (c # s) =
     (if is_space c then [] # re_split_ws (dropWhile is_space s)
      else (case re_split_ws s of
              [] \<Rightarrow> [[c]]
            | w # ws \<Rightarrow> (c # w) # ws))"
  by pat_completeness auto
termination
  by (relation "measure length") (auto simp: less_Suc_eq_le length_dropWhile_le)

text \<open>\<^verbatim>\<open>float(s)\<close> on plain decimal notation: surrounding whitespace is dropped, a sign
  may lead, and digits stand on at least one side of at most one point. \<open>None\<close> is the
  \<^verbatim>\<open>ValueError\<close> of a token that is no number. The tokens of the fee line and of the
  realized-gains table consist of digits, points, commas and minus signs, on which this is
  all of \<^verbatim>\<open>float\<close>; the exponent, underscore, \<^verbatim>\<open>inf\<close> and \<^verbatim>\<open>nan\<close> notations that a
  dividend token could use are not part of the modelled input.\<close>

definition digits_value :: "string \<Rightarrow> nat" where
  "digits_value ds = foldl (\<lambda>a c. 10 * a + (of_char c - 48)) 0 ds"

definition unsigned_float :: "string \<Rightarrow> rat option" where
  "unsigned_float u =
     (let ip = takeWhile is_digit u; r = dropWhile is_digit u in
      case r of
        [] \<Rightarrow> if ip = [] then None else Some (of_nat (digits_value ip))
      | c # fp \<Rightarrow>
          if c = CHR ''.'' \<and> list_all is_digit fp \<and> \<not> (ip = [] \<and> fp = [])
          then Some (of_nat (digits_value (ip @ fp)) / 10 ^ length fp)
          else None)"

definition py_float :: "string \<Rightarrow> rat option" where
  "py_float s =
     (case strip s of
        [] \<Rightarrow> None
      | c # u \<Rightarrow>
          if c = CHR ''-'' then map_option uminus (unsigned_float u)
          else if c = CHR ''+'' then unsigned_float u
          else unsigned_float (c # u))"

section \<open>Regular expressions\<close>

text \<open>
  The four patterns of the program are sequences of literals and of repetitions of one
  character class, some of them inside a capturing group. \<open>Lit g l\<close> is the literal
  \<open>l\<close> and \<open>Rep g m lo P\<close> the class \<open>P\<close> repeated \<open>lo\<close> times or more, greedily or
  lazily; \<open>g\<close> says whether the item is a group.

  \<open>rx_run\<close> is the backtracking matcher of \<^verbatim>\<open>re\<close> at one start position. A lazy
  repetition first tries the rest of the pattern where it stands and takes one more
  character only when that fails; a greedy one first takes one more character and tries
  the rest of the pattern where it stands when that fails. \<open>rx_rep\<close> counts the
  characters the repetition has taken. The result of a match is the texts of the groups,
  in order, and the text after the match.
\<close>

datatype greed = Greedy | Lazy

datatype rx = Lit bool string | Rep bool greed nat "char \<Rightarrow> bool"

fun strip_prefix :: "string \<Rightarrow> string \<Rightarrow> string option" where
  "strip_prefix [] s = Some s"
| "strip_prefix (a # l) [] = None"
| "strip_prefix (a # l) (c # s) = (if a = c then strip_prefix l s else None)"

fun rx_run :: "rx list \<Rightarrow> string \<Rightarrow> (string list \<times> string) option"
and rx_rep ::
  "greed \<Rightarrow> nat \<Rightarrow> (char \<Rightarrow> bool) \<Rightarrow> rx list \<Rightarrow> nat \<Rightarrow> string
     \<Rightarrow> (nat \<times> string list \<times> string) option"
where
  "rx_run [] s = Some ([], s)"
| "rx_run (Lit g l # rs) s =
     (case strip_prefix l s of
        None \<Rightarrow> None
      | Some s' \<Rightarrow>
          (case rx_run rs s' of
             None \<Rightarrow> None
           | Some (caps, rest) \<Rightarrow> Some (if g then l # caps else caps, rest)))"
| "rx_run (Rep g m lo P # rs) s =
     (case rx_rep m lo P rs 0 s of
        None \<Rightarrow> None
      | Some (k, caps, rest) \<Rightarrow> Some (if g then take k s # caps else caps, rest))"
| "rx_rep m lo P rs n [] =
     (if lo \<le> n
      then (case rx_run rs [] of
              None \<Rightarrow> None
            | Some (caps, rest) \<Rightarrow> Some (n, caps, rest))
      else None)"
| "rx_rep Lazy lo P rs n (c # s) =
     (case (if lo \<le> n then rx_run rs (c # s) else None) of
        Some (caps, rest) \<Rightarrow> Some (n, caps, rest)
      | None \<Rightarrow> if P c then rx_rep Lazy lo P rs (Suc n) s else None)"
| "rx_rep Greedy lo P rs n (c # s) =
     (case (if P c then rx_rep Greedy lo P rs (Suc n) s else None) of
        Some m \<Rightarrow> Some m
      | None \<Rightarrow>
          if lo \<le> n
          then (case rx_run rs (c # s) of
                  None \<Rightarrow> None
                | Some (caps, rest) \<Rightarrow> Some (n, caps, rest))
          else None)"

text \<open>\<^verbatim>\<open>re.search\<close>: the match at the leftmost start position that has one.\<close>

fun rx_search :: "rx list \<Rightarrow> string \<Rightarrow> (string list \<times> string) option" where
  "rx_search p [] = rx_run p []"
| "rx_search p (c # s) =
     (case rx_run p (c # s) of
        Some m \<Rightarrow> Some m
      | None \<Rightarrow> rx_search p s)"

text \<open>\<^verbatim>\<open>re.findall\<close>: the groups of the successive matches, each search starting where
  the last match ended. The recursion goes on while a match consumed text; a pattern whose
  items need at least one character, as the row pattern does, always consumes some
  (\<open>rx_search_shorter\<close> below).\<close>

function rx_findall :: "rx list \<Rightarrow> string \<Rightarrow> string list list" where
  "rx_findall p s =
     (case rx_search p s of
        None \<Rightarrow> []
      | Some (caps, rest) \<Rightarrow>
          caps # (if length rest < length s then rx_findall p rest else []))"
  by pat_completeness auto
termination
  by (relation "measure (\<lambda>(p, s). length s)") auto

declare rx_findall.simps [simp del]

text \<open>\<^verbatim>\<open>match.group(n)\<close> for a group number from 1 on; a number beyond the groups
  of the pattern raises \<^verbatim>\<open>IndexError\<close>.\<close>

definition match_group :: "string list \<Rightarrow> nat \<Rightarrow> py_error + string" where
  "match_group caps n =
     (if 0 < n \<and> n \<le> length caps then Inr (caps ! (n - 1)) else Inl IndexError)"

section \<open>The dividend table\<close>

text \<open>The pattern of \<^verbatim>\<open>extract_dividend_table\<close>, compiled with \<^verbatim>\<open>re.S\<close> so that the dot
  matches every character:
  \<^verbatim>\<open>Land Bruttodividende Quellensteuer Nettodividende\n(.*?)\nKuponuebersicht\<close>
  (with u-umlaut in the last word).\<close>

definition dividend_pattern :: "rx list" where
  "dividend_pattern =
     [Lit False (''Land Bruttodividende Quellensteuer Nettodividende'' @ [newline]),
      Rep True Lazy 0 (\<lambda>c. True),
      Lit False ([newline] @ ''Kupon'' @ [uuml] @ ''bersicht'')]"

text \<open>\<^verbatim>\<open>pd.DataFrame(divi_data, columns=[...])\<close> with four column names, on a list of
  lists. pandas makes the table as wide as the longest row and fills the shorter rows with
  missing cells; it raises when that width is not the number of column names. An empty
  list gives the empty table with the four columns.\<close>

definition width :: "'a list list \<Rightarrow> nat" where
  "width data = foldr (\<lambda>row k. max (length row) k) data 0"

definition pad_row :: "nat \<Rightarrow> 'a list \<Rightarrow> 'a option list" where
  "pad_row k row = map Some row @ replicate (k - length row) None"

definition DataFrame_4 :: "string list list \<Rightarrow> py_error + string option list list" where
  "DataFrame_4 data =
     (if data = [] then Inr []
      else if width data = 4 then Inr (map (pad_row 4) data)
      else Inl ValueError)"

text \<open>A cell of a numeric column after \<^verbatim>\<open>.str.replace(',', '.').astype(float)\<close>: a missing
  cell stays missing, a string is parsed.\<close>

definition astype_float :: "string option \<Rightarrow> py_error + rat option" where
  "astype_float cell =
     (case cell of
        None \<Rightarrow> Inr None
      | Some s \<Rightarrow> (case py_float (replace_comma s) of
                    None \<Rightarrow> Inl ValueError
                  | Some v \<Rightarrow> Inr (Some v)))"

record dividend_row =
  Land :: "string option"
  Bruttodividende :: "rat option"
  Quellensteuer :: "rat option"
  Nettodividende :: "rat option"

definition dividend_row_of :: "string option list \<Rightarrow> py_error + dividend_row" where
  "dividend_row_of cells =
     (case cells of
        [l, b, q, n] \<Rightarrow>
          (case (astype_float b, astype_float q, astype_float n) of
             (Inr b', Inr q', Inr n') \<Rightarrow>
               Inr \<lparr>Land = l, Bruttodividende = b', Quellensteuer = q', Nettodividende = n'\<rparr>
           | _ \<Rightarrow> Inl ValueError)
      | _ \<Rightarrow> Inl ValueError)"

text \<open>The results of a list of steps, or the first error.\<close>

fun collect :: "('e + 'a) list \<Rightarrow> 'e + 'a list" where
  "collect [] = Inr []"
| "collect (x # xs) =
     (case x of
        Inl e \<Rightarrow> Inl e
      | Inr v \<Rightarrow> (case collect xs of Inl e \<Rightarrow> Inl e | Inr vs \<Rightarrow> Inr (v # vs)))"

text \<open>The column \<^verbatim>\<open>Steuersatz\<close> is the quotient of two other columns, so the model has
  it as a function of the row; \<open>None\<close> where the quotient is no finite number. The program
  never reads it.\<close>

definition Steuersatz :: "dividend_row \<Rightarrow> rat option" where
  "Steuersatz r =
     (case (Quellensteuer r, Bruttodividende r) of
        (Some q, Some b) \<Rightarrow> if b = 0 then None else Some (q / b)
      | _ \<Rightarrow> None)"

text \<open>\<^verbatim>\<open>Series.sum()\<close> skips missing values.\<close>

definition series_sum :: "rat option list \<Rightarrow> rat" where
  "series_sum col = sum_list (map (\<lambda>v. case v of None \<Rightarrow> 0 | Some x \<Rightarrow> x) col)"

definition dividend_sum :: "dividend_row list \<Rightarrow> rat" where
  "dividend_sum df = series_sum (map Bruttodividende df)"

definition dividend_sum_de :: "dividend_row list \<Rightarrow> rat" where
  "dividend_sum_de df = series_sum (map Bruttodividende (filter (\<lambda>r. Land r = Some ''DE'') df))"

definition dividend_sum_ausl :: "dividend_row list \<Rightarrow> rat" where
  "dividend_sum_ausl df = series_sum (map Bruttodividende (filter (\<lambda>r. Land r \<noteq> Some ''DE'') df))"

text \<open>\<^verbatim>\<open>extract_dividend_table\<close> returns the table with its three sums, or an empty
  \<^verbatim>\<open>DataFrame\<close> when the section is not found or anything in its \<^verbatim>\<open>try\<close> block raises.\<close>

datatype dividend_return = Empty_DataFrame | Dividend_Tuple "dividend_row list" rat rat rat

definition dividend_rows :: "string \<Rightarrow> string list list" where
  "dividend_rows section = map re_split_ws (butlast (split_lines (strip section)))"

definition extract_dividend_table :: "string \<Rightarrow> dividend_return" where
  "extract_dividend_table text =
     (case rx_search dividend_pattern text of
        None \<Rightarrow> Empty_DataFrame
      | Some (caps, rest) \<Rightarrow>
          (case match_group caps 1 of
             Inl e \<Rightarrow> Empty_DataFrame
           | Inr section \<Rightarrow>
               (case DataFrame_4 (dividend_rows section) of
                  Inl e \<Rightarrow> Empty_DataFrame
                | Inr cells \<Rightarrow>
                    (case collect (map dividend_row_of cells) of
                       Inl e \<Rightarrow> Empty_DataFrame
                     | Inr df \<Rightarrow>
                         Dividend_Tuple df (dividend_sum df) (dividend_sum_de df)
                           (dividend_sum_ausl df)))))"

section \<open>The realized gains and losses\<close>

text \<open>The section pattern, searched with \<^verbatim>\<open>re.DOTALL\<close>, and the row pattern:
  \<^verbatim>\<open>(Realisierte Gewinne/Verluste je Produkt)(.*?)(Alle Dividenden und Kupons)\<close> and
  \<^verbatim>\<open>([A-Za-z0-9\s&\.\-]+)\s+([A-Z0-9]+)\s+([\-0-9,\.]+)\s+([\-0-9,\.]+)\<close>.\<close>

definition section_pattern :: "rx list" where
  "section_pattern =
     [Lit True ''Realisierte Gewinne/Verluste je Produkt'',
      Rep True Lazy 0 (\<lambda>c. True),
      Lit True ''Alle Dividenden und Kupons'']"

definition product_char :: "char \<Rightarrow> bool" where
  "product_char c =
     (is_upper c \<or> is_lower c \<or> is_digit c \<or> is_space c \<or>
      c = CHR ''&'' \<or> c = CHR ''.'' \<or> c = CHR ''-'')"

definition isin_char :: "char \<Rightarrow> bool" where
  "isin_char c = (is_upper c \<or> is_digit c)"

definition amount_char :: "char \<Rightarrow> bool" where
  "amount_char c = (c = CHR ''-'' \<or> is_digit c \<or> c = CHR '','' \<or> c = CHR ''.'')"

definition table_pattern :: "rx list" where
  "table_pattern =
     [Rep True Greedy 1 product_char,
      Rep False Greedy 1 is_space,
      Rep True Greedy 1 isin_char,
      Rep False Greedy 1 is_space,
      Rep True Greedy 1 amount_char,
      Rep False Greedy 1 is_space,
      Rep True Greedy 1 amount_char]"

text \<open>A row of the table: the two amounts are strings when the row is read and numbers
  after the conversion of the numeric columns.\<close>

record 'v profit_row =
  Produkt :: string
  ISIN :: string
  Realisierte_Gewinne_Verluste :: 'v
  Transaktionsgebuehr :: 'v
  Land_ISIN :: string

definition row_dict :: "string list \<Rightarrow> py_error + string profit_row" where
  "row_dict row =
     (case row of
        [r0, r1, r2, r3] \<Rightarrow>
          Inr \<lparr>Produkt = strip r0, ISIN = strip r1,
               Realisierte_Gewinne_Verluste = strip r2, Transaktionsgebuehr = strip r3,
               Land_ISIN = take 2 (strip r1)\<rparr>
      | _ \<Rightarrow> Inl IndexError)"

definition numeric_row :: "string profit_row \<Rightarrow> py_error + rat profit_row" where
  "numeric_row r =
     (case (py_float (replace_comma (Realisierte_Gewinne_Verluste r)),
            py_float (replace_comma (Transaktionsgebuehr r))) of
        (Some g, Some f) \<Rightarrow>
          Inr \<lparr>Produkt = Produkt r, ISIN = ISIN r,
               Realisierte_Gewinne_Verluste = g, Transaktionsgebuehr = f,
               Land_ISIN = Land_ISIN r\<rparr>
      | _ \<Rightarrow> Inl ValueError)"

text \<open>The column \<^verbatim>\<open>G/V\<close>, the net result of a row, is the difference of its two numeric
  columns.\<close>

definition G_V :: "rat profit_row \<Rightarrow> rat" where
  "G_V r = Realisierte_Gewinne_Verluste r - Transaktionsgebuehr r"

definition positive_entries :: "rat profit_row list \<Rightarrow> rat" where
  "positive_entries df = sum_list (map G_V (filter (\<lambda>r. G_V r > 0) df))"

definition negative_entries :: "rat profit_row list \<Rightarrow> rat" where
  "negative_entries df = sum_list (map G_V (filter (\<lambda>r. G_V r < 0) df))"

definition positive_entries_de :: "rat profit_row list \<Rightarrow> rat" where
  "positive_entries_de df =
     sum_list (map G_V (filter (\<lambda>r. G_V r > 0 \<and> Land_ISIN r = ''DE'') df))"

definition negative_entries_de :: "rat profit_row list \<Rightarrow> rat" where
  "negative_entries_de df =
     sum_list (map G_V (filter (\<lambda>r. G_V r < 0 \<and> Land_ISIN r = ''DE'') df))"

definition positive_entries_ausl :: "rat profit_row list \<Rightarrow> rat" where
  "positive_entries_ausl df =
     sum_list (map G_V (filter (\<lambda>r. G_V r > 0 \<and> Land_ISIN r \<noteq> ''DE'') df))"

definition negative_entries_ausl :: "rat profit_row list \<Rightarrow> rat" where
  "negative_entries_ausl df =
     sum_list (map G_V (filter (\<lambda>r. G_V r < 0 \<and> Land_ISIN r \<noteq> ''DE'') df))"

text \<open>\<^verbatim>\<open>extract_realized_profits_and_fees\<close> returns \<^verbatim>\<open>None\<close> when the section is not
  found and the table with its six sums otherwise. Nothing in it catches an exception: a
  table without rows has no columns, so reading its first numeric column raises
  \<^verbatim>\<open>KeyError\<close>, and an amount that is no number raises \<^verbatim>\<open>ValueError\<close>.\<close>

type_synonym profits_return = "rat profit_row list \<times> rat \<times> rat \<times> rat \<times> rat \<times> rat \<times> rat"

definition extract_realized_profits_and_fees :: "string \<Rightarrow> py_error + profits_return option" where
  "extract_realized_profits_and_fees raw_text =
     (case rx_search section_pattern raw_text of
        None \<Rightarrow> Inr None
      | Some (caps, rest) \<Rightarrow>
          (case match_group caps 2 of
             Inl e \<Rightarrow> Inl e
           | Inr section_text \<Rightarrow>
               (case collect (map row_dict (rx_findall table_pattern section_text)) of
                  Inl e \<Rightarrow> Inl e
                | Inr data \<Rightarrow>
                    if data = [] then Inl KeyError
                    else (case collect (map numeric_row data) of
                            Inl e \<Rightarrow> Inl e
                          | Inr df \<Rightarrow>
                              Inr (Some (df, positive_entries df, negative_entries df,
                                         positive_entries_de df, negative_entries_de df,
                                         positive_entries_ausl df, negative_entries_ausl df))))))"

section \<open>The fee line\<close>

text \<open>The pattern of \<^verbatim>\<open>extract_transaction_fee\<close>, with u-umlaut in the label; here the dot
  stops at a line break: \<^verbatim>\<open>Transaktionsgebuehren.*?([\d,.]+)\s*EUR\<close>.\<close>

definition fee_char :: "char \<Rightarrow> bool" where
  "fee_char c = (is_digit c \<or> c = CHR '','' \<or> c = CHR ''.'')"

definition fee_pattern :: "rx list" where
  "fee_pattern =
     [Lit False (''Transaktionsgeb'' @ [uuml] @ ''hren''),
      Rep False Lazy 0 (\<lambda>c. c \<noteq> newline),
      Rep True Greedy 1 fee_char,
      Rep False Greedy 0 is_space,
      Lit False ''EUR'']"

definition extract_transaction_fee :: "string \<Rightarrow> py_error + rat" where
  "extract_transaction_fee raw_text =
     (case rx_search fee_pattern raw_text of
        None \<Rightarrow> Inr 0
      | Some (caps, rest) \<Rightarrow>
          (case match_group caps 1 of
             Inl e \<Rightarrow> Inl e
           | Inr g \<Rightarrow>
               (case py_float (replace_comma g) of
                  None \<Rightarrow> Inl ValueError
                | Some fee \<Rightarrow> Inr (abs fee))))"

section \<open>The report\<close>

text \<open>\<^verbatim>\<open>f"{x:.2f} EUR"\<close>: the sign, the integer part, a point and two fraction digits of
  the amount rounded to hundredths, a tie going to the even neighbour, then the suffix.\<close>

definition digit_char :: "nat \<Rightarrow> char" where
  "digit_char d = char_of (48 + d)"

fun dec :: "nat \<Rightarrow> string" where
  "dec n = (if n < 10 then [digit_char n] else dec (n div 10) @ [digit_char (n mod 10)])"

declare dec.simps [simp del]

definition round_half_even :: "rat \<Rightarrow> int" where
  "round_half_even q =
     (let f = \<lfloor>q\<rfloor>; d = q - of_int f in
      if d < 1 / 2 then f
      else if 1 / 2 < d then f + 1
      else if even f then f else f + 1)"

definition format_2f :: "rat \<Rightarrow> string" where
  "format_2f x =
     (let n = nat (round_half_even (\<bar>x\<bar> * 100)) in
      (if x < 0 then ''-'' else []) @ dec (n div 100) @ ''.'' @
      [digit_char (n div 10 mod 10), digit_char (n mod 10)])"

record report_row =
  Zeile :: string
  Beschreibung :: string
  Betrag_num :: rat
  Betrag :: string

definition tax_row :: "string \<Rightarrow> string \<Rightarrow> rat \<Rightarrow> report_row" where
  "tax_row z b x =
     \<lparr>Zeile = z, Beschreibung = b, Betrag_num = x, Betrag = format_2f x @ '' EUR''\<rparr>"

text \<open>The body of \<^verbatim>\<open>main\<close> after the extractions: the amounts of the ten lines from the
  fee, the dividend table with its sums and the sums of the realized results.\<close>

definition tax_rows ::
  "rat \<Rightarrow> dividend_row list \<Rightarrow> rat \<Rightarrow> rat \<Rightarrow> rat \<Rightarrow> rat \<Rightarrow> rat \<Rightarrow> rat \<Rightarrow> rat \<Rightarrow> rat
     \<Rightarrow> report_row list" where
  "tax_rows transaktionsgebuehren dividend_df dividend_sum_de' dividend_sum_ausl'
       positive_entries' negative_entries' positive_entries_de' negative_entries_de'
       positive_entries_ausl' negative_entries_ausl' =
     (let kapitalertraege = dividend_sum_de' + positive_entries_de';
          kapitalertraege_ausl =
            positive_entries_ausl' + negative_entries_ausl' + dividend_sum_ausl'
              + positive_entries_ausl' - transaktionsgebuehren;
          kapitalertraege_de = positive_entries_de' + negative_entries_de' + dividend_sum_de';
          kapitalertragsteuer_divi =
            series_sum (map Quellensteuer (filter (\<lambda>r. Land r = Some ''DE'') dividend_df));
          soli_divi = kapitalertragsteuer_divi * (55 / 1000);
          anrechenb_ausl_steuer = dividend_sum_ausl' * (15 / 100)
      in
      [tax_row ''7'' (''Kapitalertr'' @ [auml] @ ''ge'') kapitalertraege,
       tax_row ''8'' (''Gewinne aus Aktienver'' @ [auml] @ ''u'' @ [szlig] @ ''erungen'')
         positive_entries',
       tax_row ''12''
         (''Nicht ausgeglichene Verluste aus der Ver'' @ [auml] @ ''u'' @ [szlig] @
          ''erung von Aktien'')
         negative_entries',
       tax_row ''18'' (''Inl'' @ [auml] @ ''ndische Kapitalertr'' @ [auml] @ ''ge'')
         kapitalertraege_de,
       tax_row ''19'' (''Ausl'' @ [auml] @ ''ndische Kapitalertr'' @ [auml] @ ''ge'')
         kapitalertraege_ausl,
       tax_row ''20''
         (''In den Zeilen 18 und 19 enthaltene Gewinne aus Aktienver'' @ [auml] @ ''u'' @
          [szlig] @ ''erungen i. S. d. '' @ [sect] @ '' 20 Abs. 2 Satz 1 Nr. 1 EStG'')
         positive_entries_ausl',
       tax_row ''23''
         (''In den Zeilen 18 und 19 enthaltene Verluste aus der Ver'' @ [auml] @ ''u'' @
          [szlig] @ ''erung von Aktien i. S. d. '' @ [sect] @
          '' 20 Abs. 2 Satz 1 Nr. 1 EStG'')
         negative_entries_ausl',
       tax_row ''37'' ''Kapitalertragsteuer'' kapitalertragsteuer_divi,
       tax_row ''38'' (''Solidarit'' @ [auml] @ ''tszuschlag'') soli_divi,
       tax_row ''41'' (''Anrechenbare ausl'' @ [auml] @ ''ndische Steuern'')
         anrechenb_ausl_steuer])"

text \<open>\<^verbatim>\<open>main\<close>, as a function of the text the PDF reader returns. With no text it logs an
  error and returns without writing (\<open>Inr None\<close>). It unpacks the return value of the
  dividend extractor into four names and that of the realized-gains extractor into seven:
  unpacking the empty \<^verbatim>\<open>DataFrame\<close> raises \<^verbatim>\<open>ValueError\<close> and unpacking \<^verbatim>\<open>None\<close> raises
  \<^verbatim>\<open>TypeError\<close>. Nothing in \<^verbatim>\<open>main\<close> catches an exception, so a raised error ends the run
  before the file is written (\<open>Inl\<close>). \<open>Inr (Some rows)\<close> is a completed run: \<open>rows\<close> is
  the table handed to \<^verbatim>\<open>save_to_excel\<close>.\<close>

definition main :: "string \<Rightarrow> py_error + report_row list option" where
  "main raw_text =
     (if raw_text = [] then Inr None
      else
        (case extract_transaction_fee raw_text of
           Inl e \<Rightarrow> Inl e
         | Inr transaktionsgebuehren \<Rightarrow>
             (case extract_dividend_table raw_text of
                Empty_DataFrame \<Rightarrow> Inl ValueError
              | Dividend_Tuple dividend_df dividend_sum' dividend_sum_de' dividend_sum_ausl' \<Rightarrow>
                  (case extract_realized_profits_and_fees raw_text of
                     Inl e \<Rightarrow> Inl e
                   | Inr None \<Rightarrow> Inl TypeError
                   | Inr (Some (profits_df, positive_entries', negative_entries',
                                positive_entries_de', negative_entries_de',
                                positive_entries_ausl', negative_entries_ausl')) \<Rightarrow>
                       Inr (Some (tax_rows transaktionsgebuehren dividend_df dividend_sum_de'
                                    dividend_sum_ausl' positive_entries' negative_entries'
                                    positive_entries_de' negative_entries_de'
                                    positive_entries_ausl' negative_entries_ausl'))))))"

section \<open>Predicates of the statements and sample documents\<close>

text \<open>A row of the dividend table is well formed when it splits into exactly four tokens
  of which the last three are numbers; a section is well formed when it is not empty, so
  that it ends in a total line, and every line before the last is a well-formed row.\<close>

definition well_formed_row :: "string list \<Rightarrow> bool" where
  "well_formed_row toks =
     (case toks of
        [l, b, q, n] \<Rightarrow>
          py_float (replace_comma b) \<noteq> None \<and> py_float (replace_comma q) \<noteq> None \<and>
          py_float (replace_comma n) \<noteq> None
      | _ \<Rightarrow> False)"

definition well_formed_section :: "string \<Rightarrow> bool" where
  "well_formed_section sec = (strip sec \<noteq> [] \<and> list_all well_formed_row (dividend_rows sec))"

text \<open>The lines of a text that are not blank: those with a character that is no
  whitespace.\<close>

definition nonblank_lines :: "string \<Rightarrow> string list" where
  "nonblank_lines s = filter (\<lambda>l. \<not> list_all is_space l) (split_lines s)"


text \<open>The least number of characters a match of a pattern takes, and its number of
  groups.\<close>

fun rx_min :: "rx \<Rightarrow> nat" where
  "rx_min (Lit g l) = length l"
| "rx_min (Rep g m lo P) = lo"

fun rx_group :: "rx \<Rightarrow> bool" where
  "rx_group (Lit g l) = g"
| "rx_group (Rep g m lo P) = g"

text \<open>The pieces of the sample documents: the fee line, the header and the footer of the
  dividend table, three dividend sections, and the section of realized results with its
  two rows.\<close>

definition fee_line :: string where
  "fee_line = ''Transaktionsgeb'' @ [uuml] @ ''hren insgesamt 12,50 EUR''"

definition dividend_head :: string where
  "dividend_head = ''Land Bruttodividende Quellensteuer Nettodividende''"

definition dividend_foot :: string where
  "dividend_foot = ''Kupon'' @ [uuml] @ ''bersicht''"

definition sec_ok :: string where
  "sec_ok = ''DE 100,00 26,38 73,62'' @ [newline] @ ''US 50,00 7,50 42,50'' @ [newline] @ ''TOTAL''"

definition sec_short_row :: string where
  "sec_short_row = ''DE 100,00 26,38 73,62'' @ [newline] @ ''US 50,00 7,50'' @ [newline] @ ''TOTAL''"

definition sec_three_tokens :: string where
  "sec_three_tokens = ''US 50,00 7,50'' @ [newline] @ ''TOTAL''"

definition sec_blank_line :: string where
  "sec_blank_line =
     ''DE 100,00 26,38 73,62'' @ [newline] @ [newline] @ ''US 50,00 7,50 42,50'' @ [newline] @
     ''TOTAL''"

definition realized_sec :: string where
  "realized_sec =
     [newline] @ ''Apple Inc US0378331005 123,45 1,00'' @ [newline] @
     ''SAP SE DE0007164600 -20,00 2,00'' @ [newline]"

definition realized_ok :: string where
  "realized_ok =
     [newline] @ ''Realisierte Gewinne/Verluste je Produkt'' @ realized_sec @
     ''Alle Dividenden und Kupons''"

definition df_ok :: "dividend_row list" where
  "df_ok =
     [\<lparr>Land = Some ''DE'', Bruttodividende = Some 100, Quellensteuer = Some (1319 / 50),
       Nettodividende = Some (3681 / 50)\<rparr>,
      \<lparr>Land = Some ''US'', Bruttodividende = Some 50, Quellensteuer = Some (15 / 2),
       Nettodividende = Some (85 / 2)\<rparr>]"

definition df_short_row :: "dividend_row list" where
  "df_short_row =
     [\<lparr>Land = Some ''DE'', Bruttodividende = Some 100, Quellensteuer = Some (1319 / 50),
       Nettodividende = Some (3681 / 50)\<rparr>,
      \<lparr>Land = Some ''US'', Bruttodividende = Some 50, Quellensteuer = Some (15 / 2),
       Nettodividende = None\<rparr>]"

definition df_blank_line :: "dividend_row list" where
  "df_blank_line =
     [\<lparr>Land = Some ''DE'', Bruttodividende = Some 100, Quellensteuer = Some (1319 / 50),
       Nettodividende = Some (3681 / 50)\<rparr>,
      \<lparr>Land = Some [], Bruttodividende = None, Quellensteuer = None, Nettodividende = None\<rparr>,
      \<lparr>Land = Some ''US'', Bruttodividende = Some 50, Quellensteuer = Some (15 / 2),
       Nettodividende = Some (85 / 2)\<rparr>]"

definition profits_ok :: "rat profit_row list" where
  "profits_ok =
     [\<lparr>Produkt = ''Apple Inc'', ISIN = ''US0378331005'',
       Realisierte_Gewinne_Verluste = 2469 / 20, Transaktionsgebuehr = 1, Land_ISIN = ''US''\<rparr>,
      \<lparr>Produkt = ''SAP SE'', ISIN = ''DE0007164600'',
       Realisierte_Gewinne_Verluste = - 20, Transaktionsgebuehr = 2, Land_ISIN = ''DE''\<rparr>]"

text \<open>A complete statement; the same statement with a dividend row of three tokens below
  a row of four, and without a fee line; a statement whose only dividend row has three
  tokens; a statement with an empty line between its two dividend rows; a statement
  without the section of realized results; the fee texts; and a section of realized
  results without a row.\<close>

definition doc_ok :: string where
  "doc_ok = fee_line @ [newline] @ dividend_head @ [newline] @ sec_ok @ [newline]
            @ dividend_foot @ realized_ok"

definition doc_short_row :: string where
  "doc_short_row = dividend_head @ [newline] @ sec_short_row @ [newline]
                   @ dividend_foot @ realized_ok"

definition doc_three_tokens :: string where
  "doc_three_tokens = dividend_head @ [newline] @ sec_three_tokens @ [newline]
                      @ dividend_foot @ realized_ok"

definition doc_blank_line :: string where
  "doc_blank_line = dividend_head @ [newline] @ sec_blank_line @ [newline]
                    @ dividend_foot @ realized_ok"

definition doc_no_realized :: string where
  "doc_no_realized = fee_line @ [newline] @ dividend_head @ [newline] @ sec_ok @ [newline]
                     @ dividend_foot"

definition fee_text :: string where
  "fee_text = ''... Transaktionsgeb'' @ [uuml] @ ''hren insgesamt 12,50 EUR ...''"

definition fee_text_thousands :: string where
  "fee_text_thousands = ''Transaktionsgeb'' @ [uuml] @ ''hren 1.234,56 EUR''"

definition fee_text_sum :: string where
  "fee_text_sum = ''Summe der Transaktionsgeb'' @ [uuml] @ ''hren: 1.234,56 EUR''"

definition no_rows_text :: string where
  "no_rows_text =
     ''Realisierte Gewinne/Verluste je Produkt'' @ [newline] @ ''keine'' @ [newline] @
     ''Alle Dividenden und Kupons''"

definition rows_ok :: "report_row list" where
  "rows_ok = tax_rows (25 / 2) df_ok 100 50 (2449 / 20) (- 22) 0 (- 22) (2449 / 20) 0"

definition rows_short_row :: "report_row list" where
  "rows_short_row = tax_rows 0 df_short_row 100 50 (2449 / 20) (- 22) 0 (- 22) (2449 / 20) 0"

section \<open>The matcher\<close>

text \<open>A match yields one text for each group of the pattern and takes at least as many
  characters as the items of the pattern need.\<close>

lemma strip_prefix_length:
  "strip_prefix l s = Some s' \<Longrightarrow> length s = length l + length s'"
  by (induction l s rule: strip_prefix.induct) (auto split: if_splits)

lemma rx_run_shape:
  "rx_run ps s = Some (caps, rest) \<Longrightarrow>
     length caps = length (filter rx_group ps) \<and>
     length rest + sum_list (map rx_min ps) \<le> length s"
  "rx_rep m lo P rs n s = Some (k, caps, rest) \<Longrightarrow>
     length caps = length (filter rx_group rs) \<and>
     (lo \<le> n \<or> lo \<le> k) \<and> n \<le> k \<and>
     length rest + sum_list (map rx_min rs) + (k - n) \<le> length s"
proof (induction ps s and m lo P rs n s arbitrary: caps rest and k caps rest
    rule: rx_run_rx_rep.induct)
  case (1 s)
  then show ?case by simp
next
  case (2 g l rs s)
  then show ?case
    by (auto split: option.splits dest!: strip_prefix_length)
next
  case (3 g m lo P rs s)
  then show ?case
    by (auto split: option.splits)
next
  case (4 m lo P rs n)
  then show ?case
    by (auto split: if_splits option.splits)
next
  case (5 lo P rs n c s)
  then show ?case
    by (auto split: if_splits option.splits)
next
  case (6 lo P rs n c s)
  then show ?case
    by (auto split: if_splits option.splits)
qed

lemma rx_search_shape:
  "rx_search p s = Some (caps, rest) \<Longrightarrow>
     length caps = length (filter rx_group p) \<and>
     length rest + sum_list (map rx_min p) \<le> length s"
proof (induction s)
  case Nil
  then show ?case using rx_run_shape(1) [of p "[]" caps rest] by simp
next
  case (Cons c s)
  show ?case
  proof (cases "rx_run p (c # s)")
    case None
    with Cons show ?thesis by simp
  next
    case (Some m)
    with Cons.prems have "rx_run p (c # s) = Some (caps, rest)" by simp
    then show ?thesis by (rule rx_run_shape(1))
  qed
qed

text \<open>So the three searches of the program always find the group they read: the section
  patterns have one and three groups and the fee pattern has one.\<close>

lemma dividend_match_one_group:
  assumes "rx_search dividend_pattern raw_text = Some (caps, rest)"
  shows "\<exists>sec. caps = [sec]"
proof -
  from rx_search_shape [OF assms] have "length caps = 1"
    by (simp add: dividend_pattern_def)
  then show ?thesis
    by (cases caps) simp_all
qed

lemma section_match_three_groups:
  assumes "rx_search section_pattern raw_text = Some (caps, rest)"
  shows "\<exists>a sec b. caps = [a, sec, b] \<and> match_group caps 2 = Inr sec"
proof -
  from rx_search_shape [OF assms] have "length caps = 3"
    by (simp add: section_pattern_def)
  then obtain a sec b where "caps = [a, sec, b]"
    by (auto simp: length_Suc_conv numeral_3_eq_3)
  then show ?thesis by (simp add: match_group_def)
qed

lemma fee_match_one_group:
  assumes "rx_search fee_pattern raw_text = Some (caps, rest)"
  shows "\<exists>tok. caps = [tok] \<and> match_group caps 1 = Inr tok"
proof -
  from rx_search_shape [OF assms] have "length caps = 1"
    by (simp add: fee_pattern_def)
  then obtain tok where "caps = [tok]"
    by (cases caps) simp_all
  then show ?thesis by (simp add: match_group_def)
qed

text \<open>A match of the row pattern takes at least seven characters and has four groups, so
  \<open>rx_findall\<close> goes through the whole section and every row it returns has four
  entries.\<close>

lemma rx_search_shorter:
  assumes "rx_search table_pattern s = Some (caps, rest)"
  shows "length rest < length s" and "length caps = 4"
  using rx_search_shape [OF assms] by (simp_all add: table_pattern_def)

lemma rx_findall_rows: "list_all (\<lambda>row. length row = 4) (rx_findall table_pattern s)"
proof (induction "table_pattern" s rule: rx_findall.induct)
  case (1 s)
  show ?case
  proof (cases "rx_search table_pattern s")
    case None
    then show ?thesis by (simp add: rx_findall.simps [of _ s])
  next
    case (Some m)
    obtain caps rest where m: "m = (caps, rest)" by (cases m)
    with Some rx_search_shorter [of s caps rest]
    have "length rest < length s" "length caps = 4" by simp_all
    with 1 Some m show ?thesis
      by (simp add: rx_findall.simps [of _ s])
  qed
qed

lemma collect_row_dict:
  "list_all (\<lambda>row. length row = 4) rows \<Longrightarrow> \<exists>data. collect (map row_dict rows) = Inr data"
proof (induction rows)
  case Nil
  then show ?case by simp
next
  case (Cons row rows)
  then obtain r0 r1 r2 r3 where "row = [r0, r1, r2, r3]"
    by (auto simp: length_Suc_conv numeral_eq_Suc)
  with Cons show ?case by (auto simp: row_dict_def)
qed

lemma collect_numeric_row:
  "collect (map numeric_row data) = Inl e \<Longrightarrow> e = ValueError"
proof (induction data)
  case Nil
  then show ?case by simp
next
  case (Cons r data)
  then show ?case
    by (auto simp: numeric_row_def split: option.splits sum.splits)
qed

text \<open>The errors the extractors can raise.\<close>

lemma fee_error: "extract_transaction_fee raw_text = Inl e \<Longrightarrow> e = ValueError"
  by (auto simp: extract_transaction_fee_def split: option.splits sum.splits
      dest: fee_match_one_group)

lemma realized_error:
  assumes "extract_realized_profits_and_fees raw_text = Inl e"
  shows "e = KeyError \<or> e = ValueError"
proof (cases "rx_search section_pattern raw_text")
  case None
  with assms show ?thesis by (simp add: extract_realized_profits_and_fees_def)
next
  case (Some m)
  obtain caps rest where m: "m = (caps, rest)" by (cases m)
  from section_match_three_groups [OF Some [unfolded m]]
  obtain sec where sec: "match_group caps 2 = Inr sec" by blast
  from collect_row_dict [OF rx_findall_rows]
  obtain data where data: "collect (map row_dict (rx_findall table_pattern sec)) = Inr data"
    by blast
  show ?thesis
  proof (cases "data = []")
    case True
    with assms Some m sec data show ?thesis
      by (simp add: extract_realized_profits_and_fees_def)
  next
    case False
    with assms Some m sec data show ?thesis
      by (auto simp: extract_realized_profits_and_fees_def split: sum.splits
          dest: collect_numeric_row)
  qed
qed

section \<open>The sample documents, evaluated\<close>

lemmas char_eval = is_digit_def is_space_def is_upper_def is_lower_def

lemmas float_eval = strip_def replace_comma_def py_float_def unsigned_float_def digits_value_def

lemmas doc_parts = fee_line_def dividend_head_def dividend_foot_def sec_ok_def
  sec_short_row_def sec_three_tokens_def sec_blank_line_def realized_sec_def realized_ok_def

lemmas table_eval = DataFrame_4_def width_def pad_row_def dividend_row_of_def astype_float_def
  dividend_sum_def dividend_sum_de_def dividend_sum_ausl_def series_sum_def

lemmas profit_eval = row_dict_def numeric_row_def G_V_def positive_entries_def
  negative_entries_def positive_entries_de_def negative_entries_de_def
  positive_entries_ausl_def negative_entries_ausl_def




text \<open>The rows of the section of realized results. The first group of the row pattern
  admits whitespace, so it starts at the line break before the product name.\<close>

lemma realized_sec_rows:
  "rx_findall table_pattern realized_sec =
     [[[newline] @ ''Apple Inc'', ''US0378331005'', ''123,45'', ''1,00''],
      [[newline] @ ''SAP SE'', ''DE0007164600'', ''-20,00'', ''2,00'']]"
  by (simp add: rx_findall.simps realized_sec_def table_pattern_def product_char_def
      isin_char_def amount_char_def char_eval)

text \<open>The complete statement: fee 12.50, two dividend rows, two realized results.\<close>

lemma doc_ok_fee: "extract_transaction_fee doc_ok = Inr (25 / 2)"
  by (simp add: extract_transaction_fee_def doc_ok_def doc_parts fee_pattern_def fee_char_def
      match_group_def char_eval float_eval)

lemma doc_ok_dividend_match: "rx_search dividend_pattern doc_ok = Some ([sec_ok], realized_ok)"
  by (simp add: doc_ok_def doc_parts dividend_pattern_def)

lemma sec_ok_lines:
  "split_lines (strip sec_ok) = [''DE 100,00 26,38 73,62'', ''US 50,00 7,50 42,50'', ''TOTAL'']"
  by (simp add: sec_ok_def strip_def char_eval)

lemma sec_ok_rows:
  "dividend_rows sec_ok =
     [[''DE'', ''100,00'', ''26,38'', ''73,62''], [''US'', ''50,00'', ''7,50'', ''42,50'']]"
  by (simp add: dividend_rows_def sec_ok_lines char_eval)

lemma doc_ok_dividend: "extract_dividend_table doc_ok = Dividend_Tuple df_ok 150 100 50"
  by (simp add: extract_dividend_table_def doc_ok_dividend_match match_group_def sec_ok_rows
      df_ok_def table_eval char_eval float_eval)

lemma doc_ok_section_match:
  "rx_search section_pattern doc_ok =
     Some ([''Realisierte Gewinne/Verluste je Produkt'', realized_sec,
            ''Alle Dividenden und Kupons''], [])"
  by (simp add: doc_ok_def doc_parts section_pattern_def)

lemma doc_ok_realized:
  "extract_realized_profits_and_fees doc_ok =
     Inr (Some (profits_ok, 2449 / 20, - 22, 0, - 22, 2449 / 20, 0))"
  by (simp add: extract_realized_profits_and_fees_def doc_ok_section_match match_group_def
      realized_sec_rows profits_ok_def profit_eval char_eval float_eval)

lemma doc_ok_main: "main doc_ok = Inr (Some rows_ok)"
proof -
  have "doc_ok \<noteq> []" by (simp add: doc_ok_def doc_parts)
  then show ?thesis
    by (simp add: main_def doc_ok_fee doc_ok_dividend doc_ok_realized rows_ok_def)
qed


text \<open>The statement with a dividend row of three tokens below a row of four.\<close>

lemma doc_short_row_fee: "extract_transaction_fee doc_short_row = Inr 0"
  by (simp add: extract_transaction_fee_def doc_short_row_def doc_parts fee_pattern_def)

lemma doc_short_row_dividend_match:
  "rx_search dividend_pattern doc_short_row = Some ([sec_short_row], realized_ok)"
  by (simp add: doc_short_row_def doc_parts dividend_pattern_def)

lemma sec_short_row_rows:
  "dividend_rows sec_short_row =
     [[''DE'', ''100,00'', ''26,38'', ''73,62''], [''US'', ''50,00'', ''7,50'']]"
  by (simp add: dividend_rows_def sec_short_row_def strip_def char_eval)

lemma doc_short_row_dividend:
  "extract_dividend_table doc_short_row = Dividend_Tuple df_short_row 150 100 50"
  by (simp add: extract_dividend_table_def doc_short_row_dividend_match match_group_def
      sec_short_row_rows df_short_row_def table_eval char_eval float_eval)

lemma doc_short_row_section_match:
  "rx_search section_pattern doc_short_row =
     Some ([''Realisierte Gewinne/Verluste je Produkt'', realized_sec,
            ''Alle Dividenden und Kupons''], [])"
  by (simp add: doc_short_row_def doc_parts section_pattern_def)

lemma doc_short_row_realized:
  "extract_realized_profits_and_fees doc_short_row =
     Inr (Some (profits_ok, 2449 / 20, - 22, 0, - 22, 2449 / 20, 0))"
  by (simp add: extract_realized_profits_and_fees_def doc_short_row_section_match match_group_def
      realized_sec_rows profits_ok_def profit_eval char_eval float_eval)

text \<open>The statement whose only dividend row has three tokens.\<close>

lemma doc_three_tokens_dividend_match:
  "rx_search dividend_pattern doc_three_tokens = Some ([sec_three_tokens], realized_ok)"
  by (simp add: doc_three_tokens_def doc_parts dividend_pattern_def)

lemma sec_three_tokens_rows: "dividend_rows sec_three_tokens = [[''US'', ''50,00'', ''7,50'']]"
  by (simp add: dividend_rows_def sec_three_tokens_def strip_def char_eval)

text \<open>The statement with an empty line between its two dividend rows.\<close>

lemma doc_blank_line_dividend_match:
  "rx_search dividend_pattern doc_blank_line = Some ([sec_blank_line], realized_ok)"
  by (simp add: doc_blank_line_def doc_parts dividend_pattern_def)

lemma sec_blank_line_lines:
  "split_lines (strip sec_blank_line) =
     [''DE 100,00 26,38 73,62'', [], ''US 50,00 7,50 42,50'', ''TOTAL'']"
  by (simp add: sec_blank_line_def strip_def char_eval)

lemma sec_blank_line_rows:
  "dividend_rows sec_blank_line =
     [[''DE'', ''100,00'', ''26,38'', ''73,62''], [[]], [''US'', ''50,00'', ''7,50'', ''42,50'']]"
  by (simp add: dividend_rows_def sec_blank_line_lines char_eval)

lemma replicate_3: "replicate 3 x = [x, x, x]"
  by (simp add: numeral_3_eq_3)

lemma doc_blank_line_dividend:
  "extract_dividend_table doc_blank_line = Dividend_Tuple df_blank_line 150 100 50"
  by (simp add: extract_dividend_table_def doc_blank_line_dividend_match match_group_def
      sec_blank_line_rows df_blank_line_def table_eval char_eval float_eval replicate_3)

text \<open>The statement without the section of realized results.\<close>

lemma doc_no_realized_fee: "extract_transaction_fee doc_no_realized = Inr (25 / 2)"
  by (simp add: extract_transaction_fee_def doc_no_realized_def doc_parts fee_pattern_def
      fee_char_def match_group_def char_eval float_eval)

lemma doc_no_realized_dividend_match:
  "rx_search dividend_pattern doc_no_realized = Some ([sec_ok], [])"
  by (simp add: doc_no_realized_def doc_parts dividend_pattern_def)

lemma doc_no_realized_dividend:
  "extract_dividend_table doc_no_realized = Dividend_Tuple df_ok 150 100 50"
  by (simp add: extract_dividend_table_def doc_no_realized_dividend_match match_group_def sec_ok_rows
      df_ok_def table_eval char_eval float_eval)

lemma doc_no_realized_section: "rx_search section_pattern doc_no_realized = None"
  by (simp add: doc_no_realized_def doc_parts section_pattern_def)

text \<open>The fee texts.\<close>

lemma fee_search_thousands:
  "rx_search fee_pattern fee_text_thousands = Some ([''1.234,56''], [])"
  by (simp add: fee_text_thousands_def fee_pattern_def fee_char_def char_eval)

lemma float_thousands: "py_float (replace_comma ''1.234,56'') = None"
  by (simp add: float_eval char_eval)

section \<open>Sums over the tables\<close>




lemma sum_list_pos: "list_all (\<lambda>x. 0 < f x) xs \<Longrightarrow> (0::rat) \<le> sum_list (map f xs)"
  by (induction xs) auto

lemma sum_list_neg: "list_all (\<lambda>x. f x < 0) xs \<Longrightarrow> sum_list (map f xs) \<le> (0::rat)"
  by (induction xs) auto

lemma list_all_filter_conj: "list_all P (filter (\<lambda>x. P x \<and> Q x) xs)"
  by (induction xs) auto

lemma list_all_filter_self: "list_all P (filter P xs)"
  by (induction xs) auto


text \<open>
  C6. For every list of realized-gain rows the sum of the positive net results is at least
  zero and the sum of the negative net results at most zero, overall and in the domestic
  and foreign buckets; and every row that a bucket adds up has a net result, its realized
  gain or loss minus its transaction fee, of the sign of that bucket.
\<close>

theorem net_result_buckets:
  "0 \<le> positive_entries df \<and> negative_entries df \<le> 0 \<and>
   0 \<le> positive_entries_de df \<and> negative_entries_de df \<le> 0 \<and>
   0 \<le> positive_entries_ausl df \<and> negative_entries_ausl df \<le> 0 \<and>
   list_all (\<lambda>r. 0 < Realisierte_Gewinne_Verluste r - Transaktionsgebuehr r)
     (filter (\<lambda>r. G_V r > 0) df) \<and>
   list_all (\<lambda>r. Realisierte_Gewinne_Verluste r - Transaktionsgebuehr r < 0)
     (filter (\<lambda>r. G_V r < 0) df) \<and>
   list_all (\<lambda>r. 0 < Realisierte_Gewinne_Verluste r - Transaktionsgebuehr r)
     (filter (\<lambda>r. G_V r > 0 \<and> Land_ISIN r = ''DE'') df) \<and>
   list_all (\<lambda>r. Realisierte_Gewinne_Verluste r - Transaktionsgebuehr r < 0)
     (filter (\<lambda>r. G_V r < 0 \<and> Land_ISIN r = ''DE'') df) \<and>
   list_all (\<lambda>r. 0 < Realisierte_Gewinne_Verluste r - Transaktionsgebuehr r)
     (filter (\<lambda>r. G_V r > 0 \<and> Land_ISIN r \<noteq> ''DE'') df) \<and>
   list_all (\<lambda>r. Realisierte_Gewinne_Verluste r - Transaktionsgebuehr r < 0)
     (filter (\<lambda>r. G_V r < 0 \<and> Land_ISIN r \<noteq> ''DE'') df)"
proof -
  have sums: "0 \<le> positive_entries df" "negative_entries df \<le> 0"
    "0 \<le> positive_entries_de df" "negative_entries_de df \<le> 0"
    "0 \<le> positive_entries_ausl df" "negative_entries_ausl df \<le> 0"
    unfolding positive_entries_def negative_entries_def positive_entries_de_def
      negative_entries_de_def positive_entries_ausl_def negative_entries_ausl_def
    by (simp_all add: sum_list_pos sum_list_neg list_all_filter_conj list_all_filter_self)
  have rows: "list_all (\<lambda>r. 0 < G_V r) (filter (\<lambda>r. G_V r > 0) df)"
    "list_all (\<lambda>r. G_V r < 0) (filter (\<lambda>r. G_V r < 0) df)"
    "list_all (\<lambda>r. 0 < G_V r) (filter (\<lambda>r. G_V r > 0 \<and> Land_ISIN r = ''DE'') df)"
    "list_all (\<lambda>r. G_V r < 0) (filter (\<lambda>r. G_V r < 0 \<and> Land_ISIN r = ''DE'') df)"
    "list_all (\<lambda>r. 0 < G_V r) (filter (\<lambda>r. G_V r > 0 \<and> Land_ISIN r \<noteq> ''DE'') df)"
    "list_all (\<lambda>r. G_V r < 0) (filter (\<lambda>r. G_V r < 0 \<and> Land_ISIN r \<noteq> ''DE'') df)"
    by (simp_all add: list_all_filter_conj list_all_filter_self)
  from sums rows show ?thesis
    unfolding G_V_def by simp
qed

lemma extract_dividend_table_sums:
  assumes "extract_dividend_table raw_text = Dividend_Tuple df s s_de s_ausl"
  shows "s = dividend_sum df \<and> s_de = dividend_sum_de df \<and> s_ausl = dividend_sum_ausl df"
proof (cases "rx_search dividend_pattern raw_text")
  case None
  with assms show ?thesis by (simp add: extract_dividend_table_def)
next
  case (Some m)
  obtain caps rest where m: "m = (caps, rest)" by (cases m)
  show ?thesis
  proof (cases "match_group caps 1")
    case (Inl e)
    with assms Some m show ?thesis by (simp add: extract_dividend_table_def)
  next
    case (Inr sec)
    show ?thesis
    proof (cases "DataFrame_4 (dividend_rows sec)")
      case (Inl e)
      with assms Some m Inr show ?thesis by (simp add: extract_dividend_table_def)
    next
      case cells: (Inr cells)
      show ?thesis
      proof (cases "collect (map dividend_row_of cells)")
        case (Inl e)
        with assms Some m Inr cells show ?thesis by (simp add: extract_dividend_table_def)
      next
        case rows: (Inr rows)
        with assms Some m Inr cells show ?thesis by (auto simp: extract_dividend_table_def)
      qed
    qed
  qed
qed

lemma extract_realized_sums:
  assumes "extract_realized_profits_and_fees raw_text =
     Inr (Some (pdf, pos, neg, pos_de, neg_de, pos_ausl, neg_ausl))"
  shows "pos = positive_entries pdf \<and> neg = negative_entries pdf \<and>
   pos_de = positive_entries_de pdf \<and> neg_de = negative_entries_de pdf \<and>
   pos_ausl = positive_entries_ausl pdf \<and> neg_ausl = negative_entries_ausl pdf"
proof (cases "rx_search section_pattern raw_text")
  case None
  with assms show ?thesis by (simp add: extract_realized_profits_and_fees_def)
next
  case (Some m)
  obtain caps rest where m: "m = (caps, rest)" by (cases m)
  show ?thesis
  proof (cases "match_group caps 2")
    case (Inl e)
    with assms Some m show ?thesis by (simp add: extract_realized_profits_and_fees_def)
  next
    case (Inr sec)
    show ?thesis
    proof (cases "collect (map row_dict (rx_findall table_pattern sec))")
      case (Inl e)
      with assms Some m Inr show ?thesis by (simp add: extract_realized_profits_and_fees_def)
    next
      case data: (Inr data)
      show ?thesis
      proof (cases "collect (map numeric_row data)")
        case (Inl e)
        with assms Some m Inr data show ?thesis
          by (simp add: extract_realized_profits_and_fees_def split: if_splits)
      next
        case rows: (Inr rows)
        with assms Some m Inr data show ?thesis
          by (auto simp: extract_realized_profits_and_fees_def split: if_splits)
      qed
    qed
  qed
qed

section \<open>Runs of the program\<close>

lemma extract_dividend_table_absent:
  "rx_search dividend_pattern raw_text = None \<Longrightarrow>
   extract_dividend_table raw_text = Empty_DataFrame"
  by (simp add: extract_dividend_table_def)

lemma extract_realized_absent:
  "rx_search section_pattern raw_text = None \<Longrightarrow>
   extract_realized_profits_and_fees raw_text = Inr None"
  by (simp add: extract_realized_profits_and_fees_def)

lemma main_completed:
  assumes "main raw_text = Inr (Some rows)"
  shows "\<exists>fee df s s_de s_ausl pdf pos neg pos_de neg_de pos_ausl neg_ausl.
     extract_transaction_fee raw_text = Inr fee \<and>
     extract_dividend_table raw_text = Dividend_Tuple df s s_de s_ausl \<and>
     extract_realized_profits_and_fees raw_text =
       Inr (Some (pdf, pos, neg, pos_de, neg_de, pos_ausl, neg_ausl)) \<and>
     rows = tax_rows fee df s_de s_ausl pos neg pos_de neg_de pos_ausl neg_ausl"
  using assms
  by (auto simp: main_def split: if_splits sum.splits dividend_return.splits option.splits)

text \<open>
  C1. The claim is that a run does not abort when the dividend section or the section of
  realized results is absent. The program aborts: for every text that is not empty and
  lacks one of the two sections, \<open>main\<close> ends in an uncaught error and hands no table to
  the writer. The dividend extractor returns an empty \<^verbatim>\<open>DataFrame\<close> and the other
  extractor \<^verbatim>\<open>None\<close>, and \<open>main\<close> unpacks either as a tuple.
\<close>

theorem main_aborts_without_section:
  assumes "raw_text \<noteq> []"
    and "rx_search dividend_pattern raw_text = None \<or>
         rx_search section_pattern raw_text = None"
  shows "main raw_text = Inl ValueError \<or> main raw_text = Inl TypeError"
proof (cases "extract_transaction_fee raw_text")
  case (Inl e)
  with fee_error have "e = ValueError" by blast
  with Inl assms(1) show ?thesis by (simp add: main_def)
next
  case fee: (Inr fee)
  show ?thesis
  proof (cases "extract_dividend_table raw_text")
    case Empty_DataFrame
    with fee assms(1) show ?thesis by (simp add: main_def)
  next
    case (Dividend_Tuple df s s_de s_ausl)
    with extract_dividend_table_absent have "rx_search dividend_pattern raw_text \<noteq> None"
      by fastforce
    with assms(2) have "extract_realized_profits_and_fees raw_text = Inr None"
      by (simp add: extract_realized_absent)
    with fee Dividend_Tuple assms(1) show ?thesis by (simp add: main_def)
  qed
qed

theorem main_aborts_without_section_witness:
  "doc_no_realized \<noteq> [] \<and> rx_search section_pattern doc_no_realized = None \<and>
   extract_dividend_table doc_no_realized = Dividend_Tuple df_ok 150 100 50 \<and>
   main doc_no_realized = Inl TypeError"
proof -
  have ne: "doc_no_realized \<noteq> []"
    by (simp add: doc_no_realized_def doc_parts)
  from main_aborts_without_section [OF ne] doc_no_realized_section
  have "main doc_no_realized = Inl ValueError \<or> main doc_no_realized = Inl TypeError"
    by simp
  moreover have "extract_realized_profits_and_fees doc_no_realized = Inr None"
    by (simp add: extract_realized_profits_and_fees_def doc_no_realized_section)
  then have "main doc_no_realized = Inl TypeError"
    using ne by (simp add: main_def doc_no_realized_fee doc_no_realized_dividend)
  ultimately show ?thesis
    using ne by (simp add: doc_no_realized_dividend doc_no_realized_section)
qed

text \<open>The text of the fee scenario has neither section: the run ends at the first
  unpacking.\<close>

lemma fee_text_main: "main fee_text = Inl ValueError"
proof -
  have "rx_search dividend_pattern fee_text = None"
    by (simp add: fee_text_def dividend_pattern_def)
  then have "extract_dividend_table fee_text = Empty_DataFrame"
    by (rule extract_dividend_table_absent)
  moreover have "extract_transaction_fee fee_text = Inr (25 / 2)"
    by (simp add: extract_transaction_fee_def fee_text_def fee_pattern_def fee_char_def match_group_def
        char_eval float_eval)
  moreover have "fee_text \<noteq> []"
    by (simp add: fee_text_def)
  ultimately show ?thesis
    by (simp add: main_def)
qed

text \<open>The errors a run can end in.\<close>

lemma main_error:
  assumes "main raw_text = Inl e"
  shows "e = ValueError \<or> e = KeyError \<or> e = TypeError"
proof (cases "extract_transaction_fee raw_text")
  case (Inl e')
  with fee_error have "e' = ValueError" by blast
  with Inl assms show ?thesis by (simp add: main_def split: if_splits)
next
  case fee: (Inr fee)
  show ?thesis
  proof (cases "extract_dividend_table raw_text")
    case Empty_DataFrame
    with fee assms show ?thesis by (simp add: main_def split: if_splits)
  next
    case div: (Dividend_Tuple df s s_de s_ausl)
    show ?thesis
    proof (cases "extract_realized_profits_and_fees raw_text")
      case (Inl e')
      with realized_error have "e' = KeyError \<or> e' = ValueError" by blast
      with Inl fee div assms show ?thesis by (auto simp: main_def split: if_splits)
    next
      case (Inr r)
      with fee div assms show ?thesis
        by (cases r) (auto simp: main_def split: if_splits)
    qed
  qed
qed

section \<open>Rows of the dividend table\<close>

lemma width_Cons: "width (row # data) = max (length row) (width data)"
  by (simp add: width_def)

lemma width_Max: "data \<noteq> [] \<Longrightarrow> width data = Max (length ` set data)"
proof (induction data)
  case Nil
  then show ?case by simp
next
  case (Cons row data)
  show ?case
  proof (cases "data = []")
    case True
    then show ?thesis by (simp add: width_def)
  next
    case False
    with Cons show ?thesis by (simp add: width_Cons)
  qed
qed

lemma dividend_pattern_not_empty: "rx_search dividend_pattern [] = None"
  by (simp add: dividend_pattern_def)

text \<open>
  C2, as amended. The program splits a row with \<^verbatim>\<open>re.split(r'\s+', line)\<close>, which
  returns the pieces between the runs of whitespace and an empty piece where the line
  begins or ends with whitespace. When the dividend section has a row and the largest
  number of pieces of a row is not four (every row gives at most three pieces, or some
  row gives five or more), the extraction fails as a whole, returning the empty table, and
  the run ends in an uncaught error before a file is written.
\<close>

theorem widest_row_not_four_fails:
  assumes found: "rx_search dividend_pattern raw_text = Some ([sec], rest)"
    and rows: "dividend_rows sec \<noteq> []"
    and wide: "width (dividend_rows sec) \<noteq> 4"
  shows "extract_dividend_table raw_text = Empty_DataFrame \<and> main raw_text = Inl ValueError"
proof -
  from rows wide have "DataFrame_4 (dividend_rows sec) = Inl ValueError"
    by (simp add: DataFrame_4_def)
  with found have empty: "extract_dividend_table raw_text = Empty_DataFrame"
    by (simp add: extract_dividend_table_def match_group_def)
  from found have ne: "raw_text \<noteq> []"
    using dividend_pattern_not_empty by auto
  have "main raw_text = Inl ValueError"
  proof (cases "extract_transaction_fee raw_text")
    case (Inl e)
    with fee_error have "e = ValueError" by blast
    with Inl ne show ?thesis by (simp add: main_def)
  next
    case (Inr fee)
    with empty ne show ?thesis by (simp add: main_def)
  qed
  with empty show ?thesis by simp
qed

theorem widest_row_not_four_fails_witness:
  "rx_search dividend_pattern doc_three_tokens = Some ([sec_three_tokens], realized_ok) \<and>
   dividend_rows sec_three_tokens = [[''US'', ''50,00'', ''7,50'']] \<and>
   width (dividend_rows sec_three_tokens) = 3 \<and>
   extract_dividend_table doc_three_tokens = Empty_DataFrame \<and>
   main doc_three_tokens = Inl ValueError"
proof -
  have w: "width (dividend_rows sec_three_tokens) = 3"
    by (simp add: sec_three_tokens_rows width_def)
  from widest_row_not_four_fails [OF doc_three_tokens_dividend_match] w
  have "extract_dividend_table doc_three_tokens = Empty_DataFrame \<and>
      main doc_three_tokens = Inl ValueError"
    by (simp add: sec_three_tokens_rows)
  with w show ?thesis
    by (simp add: doc_three_tokens_dividend_match sec_three_tokens_rows)
qed

text \<open>
  C2 as stated fails: in \<open>doc_short_row\<close> the second dividend row has three tokens, and
  gives three pieces, below a row of four. The table is built with the missing cell of the
  short row left empty, the extraction returns both rows with their sums, and the run
  completes.
\<close>

theorem short_row_counterexample:
  "rx_search dividend_pattern doc_short_row = Some ([sec_short_row], realized_ok) \<and>
   dividend_rows sec_short_row =
     [[''DE'', ''100,00'', ''26,38'', ''73,62''], [''US'', ''50,00'', ''7,50'']] \<and>
   extract_dividend_table doc_short_row = Dividend_Tuple df_short_row 150 100 50 \<and>
   main doc_short_row = Inr (Some rows_short_row)"
proof -
  have "doc_short_row \<noteq> []" by (simp add: doc_short_row_def doc_parts)
  then have "main doc_short_row = Inr (Some rows_short_row)"
    by (simp add: main_def doc_short_row_fee doc_short_row_dividend doc_short_row_realized
        rows_short_row_def)
  then show ?thesis
    by (simp add: doc_short_row_dividend_match sec_short_row_rows doc_short_row_dividend)
qed

lemma split_lines_not_Nil: "split_lines s \<noteq> []"
  by (induction s) (auto split: list.splits)

lemma is_space_newline: "is_space newline"
  by (simp add: is_space_def)

lemma nonblank_lines_space:
  assumes "is_space c"
  shows "length (nonblank_lines (c # s)) = length (nonblank_lines s)"
proof (cases "c = newline")
  case True
  then show ?thesis by (simp add: nonblank_lines_def)
next
  case False
  obtain l ls where "split_lines s = l # ls"
    using split_lines_not_Nil [of s] by (cases "split_lines s") auto
  with False assms show ?thesis by (simp add: nonblank_lines_def)
qed

lemma nonblank_lines_dropWhile:
  "length (nonblank_lines (dropWhile is_space s)) = length (nonblank_lines s)"
  by (induction s) (simp_all add: nonblank_lines_space)

lemma split_lines_snoc:
  "split_lines (s @ [c]) =
     (if c = newline then split_lines s @ [[]]
      else butlast (split_lines s) @ [last (split_lines s) @ [c]])"
proof (induction s)
  case Nil
  then show ?case by simp
next
  case (Cons a s)
  obtain l ls where ls: "split_lines s = l # ls"
    using split_lines_not_Nil [of s] by (cases "split_lines s") auto
  obtain l' ls' where ls': "split_lines (s @ [c]) = l' # ls'"
    using split_lines_not_Nil [of "s @ [c]"] by (cases "split_lines (s @ [c])") auto
  from Cons ls ls' show ?case
    by (auto split: if_splits)
qed

lemma nonblank_lines_snoc:
  assumes "is_space c"
  shows "length (nonblank_lines (s @ [c])) = length (nonblank_lines s)"
proof -
  have dec: "split_lines s = butlast (split_lines s) @ [last (split_lines s)]"
    using split_lines_not_Nil [of s] by simp
  show ?thesis
  proof (cases "c = newline")
    case True
    then show ?thesis by (simp add: nonblank_lines_def split_lines_snoc)
  next
    case False
    have "length (nonblank_lines s) =
        length (filter (\<lambda>l. \<not> list_all is_space l) (butlast (split_lines s) @ [last (split_lines s)]))"
      unfolding nonblank_lines_def using dec by simp
    with False assms show ?thesis
      by (simp add: nonblank_lines_def split_lines_snoc)
  qed
qed

lemma nonblank_lines_rstrip:
  "length (nonblank_lines (rev (dropWhile is_space (rev s)))) = length (nonblank_lines s)"
proof (induction s rule: rev_induct)
  case Nil
  then show ?case by simp
next
  case (snoc c s)
  then show ?case by (simp add: nonblank_lines_snoc)
qed

lemma nonblank_lines_strip: "length (nonblank_lines (strip s)) = length (nonblank_lines s)"
  unfolding strip_def by (simp add: nonblank_lines_rstrip nonblank_lines_dropWhile)

lemma re_split_ws_blank: "list_all is_space l \<Longrightarrow> length (re_split_ws l) \<le> 2"
proof (cases l)
  case Nil
  then show ?thesis by simp
next
  case (Cons c s)
  assume "list_all is_space l"
  with Cons have c: "is_space c" and "\<forall>x \<in> set s. is_space x"
    by (simp_all add: list_all_iff)
  then have dw: "dropWhile is_space s = []"
    by (simp only: dropWhile_eq_Nil_conv)
  from c have "re_split_ws (c # s) = [] # re_split_ws (dropWhile is_space s)"
    by simp
  also have "\<dots> = [[], []]"
    by (simp only: dw re_split_ws.simps)
  finally have "re_split_ws (c # s) = [[], []]" .
  with Cons show ?thesis by simp
qed

lemma last_split_lines:
  "s \<noteq> [] \<Longrightarrow> last s \<noteq> newline \<Longrightarrow>
   last (split_lines s) \<noteq> [] \<and> last (last (split_lines s)) = last s"
proof (induction s)
  case Nil
  then show ?case by simp
next
  case (Cons c t)
  show ?case
  proof (cases "t = []")
    case True
    with Cons.prems show ?thesis by simp
  next
    case False
    with Cons have "last (split_lines t) \<noteq> [] \<and> last (last (split_lines t)) = last t" by simp
    with False show ?thesis
      by (auto simp: split_lines_not_Nil split: list.splits)
  qed
qed

lemma well_formed_row_length: "well_formed_row toks \<Longrightarrow> length toks = 4"
  by (auto simp: well_formed_row_def split: list.splits)

lemma well_formed_row_parses:
  assumes "well_formed_row toks"
  shows "\<exists>r. dividend_row_of (pad_row 4 toks) = Inr r"
proof -
  from assms obtain l b q n where toks: "toks = [l, b, q, n]"
    by (auto simp: well_formed_row_def split: list.splits)
  from assms toks obtain vb vq vn where
    "py_float (replace_comma b) = Some vb" "py_float (replace_comma q) = Some vq"
    "py_float (replace_comma n) = Some vn"
    by (auto simp: well_formed_row_def)
  then show ?thesis
    by (simp add: toks pad_row_def dividend_row_of_def astype_float_def)
qed

lemma collect_all_Inr:
  "list_all (\<lambda>x. \<exists>y. f x = Inr y) xs \<Longrightarrow>
   \<exists>ys. collect (map f xs) = Inr ys \<and> length ys = length xs"
  by (induction xs) auto

lemma width_all_4:
  "list_all (\<lambda>r. length r = 4) rows \<Longrightarrow> width rows = (if rows = [] then 0 else 4)"
  by (induction rows) (auto simp: width_def)

lemma strip_last: "strip s \<noteq> [] \<Longrightarrow> \<not> is_space (last (strip s))"
proof -
  assume ne: "strip s \<noteq> []"
  let ?t = "dropWhile is_space (rev (dropWhile is_space s))"
  from ne have "?t \<noteq> []" by (simp add: strip_def)
  then have "\<not> is_space (hd ?t)" by (rule hd_dropWhile)
  moreover from \<open>?t \<noteq> []\<close> have "last (strip s) = hd ?t"
    by (simp add: strip_def last_rev)
  ultimately show ?thesis by simp
qed

lemma well_formed_row_Land:
  assumes "well_formed_row toks" and "dividend_row_of (pad_row 4 toks) = Inr r"
  shows "Land r = Some (hd toks)"
proof -
  from assms(1) obtain l b q n where toks: "toks = [l, b, q, n]"
    by (auto simp: well_formed_row_def split: list.splits)
  with assms(2) show ?thesis
    by (auto simp: pad_row_def dividend_row_of_def split: sum.splits)
qed

lemma collect_Inr_rel:
  "collect (map f xs) = Inr ys \<Longrightarrow> list_all2 (\<lambda>x y. f x = Inr y) xs ys"
  by (induction xs arbitrary: ys) (auto split: sum.splits)

text \<open>
  C7 as stated fails: in \<open>doc_blank_line\<close> an empty line stands between the two rows of
  the dividend section. The program does not drop it: it is a row of its own, with an empty
  country and three missing amounts. The section has three non-empty lines, two rows and
  the total line, and the table has three rows, not two.
\<close>

theorem blank_line_counterexample:
  "rx_search dividend_pattern doc_blank_line = Some ([sec_blank_line], realized_ok) \<and>
   split_lines sec_blank_line =
     [''DE 100,00 26,38 73,62'', [], ''US 50,00 7,50 42,50'', ''TOTAL''] \<and>
   length (filter (\<lambda>l. l \<noteq> []) (split_lines sec_blank_line)) = 3 \<and>
   length (nonblank_lines sec_blank_line) = 3 \<and>
   extract_dividend_table doc_blank_line = Dividend_Tuple df_blank_line 150 100 50 \<and>
   length df_blank_line = 3 \<and>
   int (length df_blank_line) \<noteq> int (length (nonblank_lines sec_blank_line)) - 1"
proof -
  have lines: "split_lines sec_blank_line =
      [''DE 100,00 26,38 73,62'', [], ''US 50,00 7,50 42,50'', ''TOTAL'']"
    by (simp add: sec_blank_line_def)
  then have "length (nonblank_lines sec_blank_line) = 3"
    by (simp add: nonblank_lines_def char_eval)
  with lines show ?thesis
    by (simp add: doc_blank_line_dividend_match doc_blank_line_dividend df_blank_line_def)
qed

text \<open>
  C7, as amended. Let the dividend section be not empty and let every line before its last
  split, by \<^verbatim>\<open>re.split(r'\s+', line)\<close>, into exactly four pieces of which the last three
  are numbers; so no line is empty or blank and no row begins or ends with whitespace.
  Then the extraction succeeds and the number of rows of its table is the number of
  non-empty lines of the section minus one: the rows are the lines before the last, in
  order, each row with the first token of its line as country. The lines are those the
  program splits the section into, after \<^verbatim>\<open>strip\<close>; the section as matched, before
  \<^verbatim>\<open>strip\<close>, has as many lines that are not blank.
\<close>

theorem dividend_record_count:
  assumes found: "rx_search dividend_pattern raw_text = Some ([sec], rest)"
    and wf: "well_formed_section sec"
  shows "\<exists>df s s_de s_ausl.
     extract_dividend_table raw_text = Dividend_Tuple df s s_de s_ausl \<and>
     int (length df) = int (length (filter (\<lambda>l. l \<noteq> []) (split_lines (strip sec)))) - 1 \<and>
     int (length df) = int (length (nonblank_lines sec)) - 1 \<and>
     map Land df = map (\<lambda>l. Some (hd (re_split_ws l))) (butlast (split_lines (strip sec)))"
proof -
  let ?lines = "split_lines (strip sec)"
  let ?rows = "dividend_rows sec"
  let ?f = "\<lambda>toks. dividend_row_of (pad_row 4 toks)"
  from wf have ne: "strip sec \<noteq> []" and rows: "list_all well_formed_row ?rows"
    by (simp_all add: well_formed_section_def)
  from rows have len4: "list_all (\<lambda>r. length r = 4) ?rows"
    by (simp add: list_all_iff well_formed_row_length)
  then have frame: "DataFrame_4 ?rows = Inr (map (pad_row 4) ?rows)"
    by (simp add: DataFrame_4_def width_all_4)
  from rows have "list_all (\<lambda>toks. \<exists>r. ?f toks = Inr r) ?rows"
    by (simp add: list_all_iff well_formed_row_parses)
  then obtain df where df: "collect (map ?f ?rows) = Inr df"
    and ldf: "length df = length ?rows"
    using collect_all_Inr [of ?f ?rows] by blast
  from frame df found have ex: "extract_dividend_table raw_text =
      Dividend_Tuple df (dividend_sum df) (dividend_sum_de df) (dividend_sum_ausl df)"
    by (simp add: extract_dividend_table_def match_group_def comp_def)
  have lines_ne: "?lines \<noteq> []" by (rule split_lines_not_Nil)
  have "length ?rows = length ?lines - 1"
    by (simp add: dividend_rows_def)
  with lines_ne ldf have count: "int (length df) = int (length ?lines) - 1"
    by (cases ?lines) simp_all
  have "last (strip sec) \<noteq> newline"
    using strip_last [OF ne] is_space_newline by auto
  with ne have last: "last ?lines \<noteq> []" "last (last ?lines) = last (strip sec)"
    using last_split_lines [of "strip sec"] by simp_all
  have line: "l \<noteq> [] \<and> \<not> list_all is_space l" if "l \<in> set ?lines" for l
  proof (cases "l = last ?lines")
    case True
    from last strip_last [OF ne] have "\<not> is_space (last (last ?lines))" by simp
    with last(1) have "\<not> list_all is_space (last ?lines)"
      by (auto simp: list_all_iff)
    with True last(1) show ?thesis by simp
  next
    case False
    with that lines_ne have "l \<in> set (butlast ?lines)"
      by (metis append_butlast_last_id in_set_conv_decomp_first rotate1.simps(2) set_ConsD
          set_rotate1)
    with rows have four: "length (re_split_ws l) = 4"
      by (simp add: dividend_rows_def list_all_iff well_formed_row_length)
    then have "l \<noteq> []" by auto
    moreover from four have "\<not> list_all is_space l"
      using re_split_ws_blank [of l] by auto
    ultimately show ?thesis by simp
  qed
  then have all: "filter (\<lambda>l. l \<noteq> []) ?lines = ?lines"
    by (simp add: filter_id_conv)
  from line have "nonblank_lines (strip sec) = ?lines"
    by (simp add: nonblank_lines_def filter_id_conv)
  with nonblank_lines_strip [of sec] have nonblank: "length (nonblank_lines sec) = length ?lines"
    by simp
  from collect_Inr_rel [OF df] have rel: "list_all2 (\<lambda>toks r. ?f toks = Inr r) ?rows df" .
  have "list_all2 (\<lambda>toks r. Land r = Some (hd toks)) ?rows df"
  proof (rule list_all2_all_nthI)
    from ldf show "length ?rows = length df" by simp
  next
    fix i assume i: "i < length ?rows"
    with rel have "?f (?rows ! i) = Inr (df ! i)"
      by (simp add: list_all2_conv_all_nth)
    moreover from rows i have "well_formed_row (?rows ! i)"
      by (simp add: list_all_length)
    ultimately show "Land (df ! i) = Some (hd (?rows ! i))"
      by (rule well_formed_row_Land [rotated])
  qed
  then have "map Land df = map (\<lambda>toks. Some (hd toks)) ?rows"
    by (induction rule: list_all2_induct) simp_all
  then have land: "map Land df = map (\<lambda>l. Some (hd (re_split_ws l))) (butlast ?lines)"
    by (simp add: dividend_rows_def comp_def)
  from ex count all nonblank land show ?thesis by simp
qed

theorem dividend_record_count_witness:
  "rx_search dividend_pattern doc_ok = Some ([sec_ok], realized_ok) \<and>
   well_formed_section sec_ok \<and>
   extract_dividend_table doc_ok = Dividend_Tuple df_ok 150 100 50 \<and>
   int (length df_ok) = 2 \<and>
   int (length (filter (\<lambda>l. l \<noteq> []) (split_lines (strip sec_ok)))) - 1 = 2 \<and>
   int (length (nonblank_lines sec_ok)) - 1 = 2 \<and>
   map Land df_ok = [Some ''DE'', Some ''US'']"
proof -
  have "strip sec_ok \<noteq> []"
    by (simp add: sec_ok_def strip_def char_eval)
  moreover have vals: "py_float (replace_comma ''100,00'') = Some 100"
    "py_float (replace_comma ''26,38'') = Some (1319 / 50)"
    "py_float (replace_comma ''73,62'') = Some (3681 / 50)"
    "py_float (replace_comma ''50,00'') = Some 50"
    "py_float (replace_comma ''7,50'') = Some (15 / 2)"
    "py_float (replace_comma ''42,50'') = Some (85 / 2)"
    by (simp_all add: float_eval char_eval)
  have "list_all well_formed_row (dividend_rows sec_ok)"
    by (simp only: sec_ok_rows well_formed_row_def list.pred_inject list.case vals
        option.distinct not_False_eq_True simp_thms)
  ultimately have wf: "well_formed_section sec_ok"
    by (simp add: well_formed_section_def)
  from dividend_record_count [OF doc_ok_dividend_match wf]
  have "int (length df_ok) =
      int (length (filter (\<lambda>l. l \<noteq> []) (split_lines (strip sec_ok)))) - 1"
    and "int (length df_ok) = int (length (nonblank_lines sec_ok)) - 1"
    by (simp_all add: doc_ok_dividend)
  with wf show ?thesis
    by (simp add: doc_ok_dividend_match doc_ok_dividend df_ok_def)
qed

section \<open>The report lines\<close>

text \<open>
  C3. In every completed run the amount of line 19, the fifth row of the report, is the
  foreign positive net result plus the foreign negative net result plus the foreign gross
  dividends plus the foreign positive net result once more, minus the fee: the three
  extractions returned the values named, and the sums are those of the tables.
\<close>

theorem line_19_formula:
  assumes "main raw_text = Inr (Some rows)"
  shows "\<exists>fee df s s_de s_ausl pdf pos neg pos_de neg_de pos_ausl neg_ausl.
     extract_transaction_fee raw_text = Inr fee \<and>
     extract_dividend_table raw_text = Dividend_Tuple df s s_de s_ausl \<and>
     extract_realized_profits_and_fees raw_text =
       Inr (Some (pdf, pos, neg, pos_de, neg_de, pos_ausl, neg_ausl)) \<and>
     s_ausl = dividend_sum_ausl df \<and>
     pos_ausl = positive_entries_ausl pdf \<and> neg_ausl = negative_entries_ausl pdf \<and>
     Zeile (rows ! 4) = ''19'' \<and>
     Betrag_num (rows ! 4) = pos_ausl + neg_ausl + s_ausl + pos_ausl - fee"
proof -
  from main_completed [OF assms]
  obtain fee df s s_de s_ausl pdf pos neg pos_de neg_de pos_ausl neg_ausl where
    fee: "extract_transaction_fee raw_text = Inr fee"
    and div: "extract_dividend_table raw_text = Dividend_Tuple df s s_de s_ausl"
    and real: "extract_realized_profits_and_fees raw_text =
       Inr (Some (pdf, pos, neg, pos_de, neg_de, pos_ausl, neg_ausl))"
    and rows: "rows = tax_rows fee df s_de s_ausl pos neg pos_de neg_de pos_ausl neg_ausl"
    by blast
  have line: "Zeile (rows ! 4) = ''19''"
    "Betrag_num (rows ! 4) = pos_ausl + neg_ausl + s_ausl + pos_ausl - fee"
    unfolding rows tax_rows_def Let_def tax_row_def by simp_all
  from extract_dividend_table_sums [OF div]
  have s_ausl: "s_ausl = dividend_sum_ausl df" by simp
  from extract_realized_sums [OF real]
  have ausl: "pos_ausl = positive_entries_ausl pdf" "neg_ausl = negative_entries_ausl pdf"
    by simp_all
  show ?thesis
    by (intro exI conjI) (rule fee div real s_ausl ausl line)+
qed

theorem line_19_formula_witness:
  "main doc_ok = Inr (Some rows_ok) \<and>
   extract_transaction_fee doc_ok = Inr (25 / 2) \<and>
   dividend_sum_ausl df_ok = 50 \<and>
   positive_entries_ausl profits_ok = 2449 / 20 \<and> negative_entries_ausl profits_ok = 0 \<and>
   Zeile (rows_ok ! 4) = ''19'' \<and>
   Betrag_num (rows_ok ! 4) = 2449 / 20 + 0 + 50 + 2449 / 20 - 25 / 2"
proof -
  from line_19_formula [OF doc_ok_main]
  obtain fee df s s_de s_ausl pdf pos neg pos_de neg_de pos_ausl neg_ausl where
    fee: "extract_transaction_fee doc_ok = Inr fee"
    and div: "extract_dividend_table doc_ok = Dividend_Tuple df s s_de s_ausl"
    and real: "extract_realized_profits_and_fees doc_ok =
       Inr (Some (pdf, pos, neg, pos_de, neg_de, pos_ausl, neg_ausl))"
    and sums: "s_ausl = dividend_sum_ausl df" "pos_ausl = positive_entries_ausl pdf"
      "neg_ausl = negative_entries_ausl pdf"
    and line: "Zeile (rows_ok ! 4) = ''19''"
      "Betrag_num (rows_ok ! 4) = pos_ausl + neg_ausl + s_ausl + pos_ausl - fee"
    by blast
  from fee have v1: "fee = 25 / 2"
    by (simp add: doc_ok_fee)
  from div have v2: "df = df_ok" "s_ausl = 50"
    by (simp_all add: doc_ok_dividend)
  from real have v3: "pdf = profits_ok" "pos_ausl = 2449 / 20" "neg_ausl = 0"
    by (simp_all add: doc_ok_realized)
  from sums v2 v3 have "dividend_sum_ausl df_ok = 50"
    "positive_entries_ausl profits_ok = 2449 / 20" "negative_entries_ausl profits_ok = 0"
    by simp_all
  moreover from line v1 v2 v3
  have "Betrag_num (rows_ok ! 4) = 2449 / 20 + 0 + 50 + 2449 / 20 - 25 / 2"
    by (simp only:)
  ultimately show ?thesis
    using line(1) doc_ok_main doc_ok_fee by (simp only: simp_thms)
qed







section \<open>The fee\<close>

lemma fee_no_match:
  "rx_search fee_pattern raw_text = None \<Longrightarrow> extract_transaction_fee raw_text = Inr 0"
  by (simp add: extract_transaction_fee_def)

lemma fee_scenario: "extract_transaction_fee fee_text = Inr (25 / 2)"
  by (simp add: extract_transaction_fee_def fee_text_def fee_pattern_def fee_char_def match_group_def
      char_eval float_eval)

lemma fee_not_negative: "extract_transaction_fee raw_text = Inr fee \<Longrightarrow> 0 \<le> fee"
  by (auto simp: extract_transaction_fee_def split: option.splits sum.splits)

lemma fee_result:
  assumes "rx_search fee_pattern raw_text = Some ([tok], rest)"
  shows "extract_transaction_fee raw_text =
     (case py_float (replace_comma tok) of
        None \<Rightarrow> Inl ValueError
      | Some v \<Rightarrow> Inr \<bar>v\<bar>)"
  using assms by (simp add: extract_transaction_fee_def match_group_def)

text \<open>
  C4. The claim is that the extractor returns a number for every text. It does where the
  label is absent (zero) and on the text of the scenario (12.5), but not on every text:
  in \<open>fee_text_sum\<close> the amount after the label has a point between the thousands. The
  pattern takes the whole token, the comma becomes a second point, and the conversion
  raises.
\<close>

theorem fee_sum_raises: "extract_transaction_fee fee_text_sum = Inl ValueError"
  by (simp add: extract_transaction_fee_def fee_text_sum_def fee_pattern_def fee_char_def
      match_group_def char_eval float_eval)

text \<open>
  C9. On the text \<^verbatim>\<open>Transaktionsgebuehren 1.234,56 EUR\<close> (with u-umlaut) the pattern
  matches with the token \<^verbatim>\<open>1.234,56\<close>, the conversion of the token fails, and the
  extractor raises \<^verbatim>\<open>ValueError\<close>: it returns no number there.
\<close>

theorem fee_extractor_not_total:
  "rx_search fee_pattern fee_text_thousands = Some ([''1.234,56''], []) \<and>
   py_float (replace_comma ''1.234,56'') = None \<and>
   extract_transaction_fee fee_text_thousands = Inl ValueError \<and>
   (\<nexists>v. extract_transaction_fee fee_text_thousands = Inr v)"
  by (simp add: extract_transaction_fee_def fee_search_thousands float_thousands match_group_def)

section \<open>A section of realized results without rows\<close>

lemma realized_no_rows:
  assumes "rx_search section_pattern raw_text = Some ([a, sec, b], rest)"
    and "rx_findall table_pattern sec = []"
  shows "extract_realized_profits_and_fees raw_text = Inl KeyError"
  using assms by (simp add: extract_realized_profits_and_fees_def match_group_def)

text \<open>
  C10. In \<open>no_rows_text\<close> the section of realized results is present and holds one line
  that is no row. The row pattern finds nothing, the table has no columns, and the
  extractor raises \<^verbatim>\<open>KeyError\<close> where it reads the first numeric column.
\<close>

theorem no_rows_raises:
  "rx_search section_pattern no_rows_text =
     Some ([''Realisierte Gewinne/Verluste je Produkt'', [newline] @ ''keine'' @ [newline],
            ''Alle Dividenden und Kupons''], []) \<and>
   rx_findall table_pattern ([newline] @ ''keine'' @ [newline]) = [] \<and>
   extract_realized_profits_and_fees no_rows_text = Inl KeyError"
  by (simp add: extract_realized_profits_and_fees_def no_rows_text_def section_pattern_def
      rx_findall.simps table_pattern_def product_char_def isin_char_def amount_char_def
      match_group_def char_eval)

end
